theory Spec2Isabelle
  imports Complex_Main "HOL-Library.Word"
begin

section \<open>Data model\<close>

text \<open>
  The kernel \<^verbatim>\<open>TfqSimulateMPS1DExpectationOp\<close> of
  \<^verbatim>\<open>tfq_simulate_1d_expectation.cc\<close>. A \<^verbatim>\<open>tensorflow::Status\<close> is either OK or an
  error; the kernel itself only builds \<^verbatim>\<open>InvalidArgument\<close> errors, every other error
  comes out of a function it calls. The lines that the kernel prints on \<^verbatim>\<open>std::cout\<close>
  are left out.
\<close>

datatype error =
    InvalidArgument string
  | TopologyError
  | UnresolvedSymbolError string
  | ExternalError string

datatype status = OK | Failed error

text \<open>
  Modelled from the spec: the protos \<^verbatim>\<open>Program\<close> and \<^verbatim>\<open>PauliSum\<close>
  (\<^verbatim>\<open>program.pb.h\<close>, \<^verbatim>\<open>pauli_sum.pb.h\<close>) and the type \<^verbatim>\<open>SymbolMap\<close>
  (\<^verbatim>\<open>program_resolution.h\<close>) are not among the sources. A program is an ordered sequence
  of gate operations, each naming its target qubit indices and its parameters, fixed or
  symbolic; a Pauli sum is a weighted sum of Pauli strings; a symbol map gives a value to
  each symbol name.
\<close>

datatype param = Const real | Sym string

record operation =
  gate_id :: string
  op_qubits :: "nat list"
  op_args :: "param list"

type_synonym Program = "operation list"

datatype pauli = PauliI | PauliX | PauliY | PauliZ

record PauliTerm =
  coefficient :: real
  paulis :: "(nat \<times> pauli) list"

type_synonym PauliSum = "PauliTerm list"

type_synonym SymbolMap = "(string \<times> real) list"

text \<open>
  \<^verbatim>\<open>QsimGate\<close> and \<^verbatim>\<open>QsimCircuit\<close> are qsim's types: the kernel reads the fields
  \<^verbatim>\<open>qubits\<close> and \<^verbatim>\<open>matrix\<close> of a gate and \<^verbatim>\<open>gates\<close> of a circuit.
  \<^verbatim>\<open>QsimCircuit()\<close> is the circuit with no gate.
\<close>

record QsimGate =
  qubits :: "nat list"
  matrix :: "real list"

record QsimCircuit =
  circuit_num_qubits :: nat
  gates :: "QsimGate list"

definition empty_circuit :: QsimCircuit where
  "empty_circuit = \<lparr>circuit_num_qubits = 0, gates = []\<rparr>"

text \<open>
  qsim's matrix-product state. qsim is a library outside this repository, so the numbers
  in the buffer are kept symbolic: \<open>history\<close> is \<open>None\<close> for a buffer that
  \<^verbatim>\<open>Create\<close> has allocated and nothing has initialised, and \<open>Some gs\<close> for the
  state \<open>|0...0>\<close> with the gates \<open>gs\<close> applied to it in that order.
\<close>

record MPS =
  mps_num_qubits :: int
  mps_bond_dim :: int
  history :: "QsimGate list option"

definition Create :: "int \<Rightarrow> int \<Rightarrow> MPS" where
  "Create nq bd = \<lparr>mps_num_qubits = nq, mps_bond_dim = bd, history = None\<rparr>"

definition SetStateZero :: "MPS \<Rightarrow> MPS" where
  "SetStateZero state = state\<lparr>history := Some []\<rparr>"

definition ApplyGate :: "QsimGate \<Rightarrow> MPS \<Rightarrow> MPS" where
  "ApplyGate g state = state\<lparr>history := map_option (\<lambda>gs. gs @ [g]) (history state)\<rparr>"

text \<open>
  The output tensor. \<^verbatim>\<open>allocate_output\<close> does not initialise the buffer: a cell is
  \<open>None\<close> as long as the kernel has not written it (its content is what the allocator
  left there), and then holds the float written. The kernel only ever writes the literal
  \<open>-2.0\<close>, which a float represents exactly.
\<close>

record tensor =
  tshape :: "int list"
  cells :: "nat \<times> nat \<Rightarrow> real option"

definition allocated :: "int list \<Rightarrow> tensor" where
  "allocated shp = \<lparr>tshape = shp, cells = (\<lambda>_. None)\<rparr>"

text \<open>
  What the kernel does besides computing: the calls it makes, in the order it makes them.
\<close>

datatype event =
    CallAllocateOutput "int list"
  | CallGetProgramsAndNumQubits
  | CallGetSymbolMaps
  | CallCheckQubitsIn1D
  | CallQsimCircuitFromProgram nat
  | EnterComputeLarge
  | EnterComputeSmall
  | CallCreate int int
  | CallSetStateZero
  | CallApplyGate QsimGate
  | WriteOutput nat nat real

fun is_simulation :: "event \<Rightarrow> bool" where
  "is_simulation EnterComputeLarge = True"
| "is_simulation EnterComputeSmall = True"
| "is_simulation (CallCreate _ _) = True"
| "is_simulation CallSetStateZero = True"
| "is_simulation (CallApplyGate _) = True"
| "is_simulation (WriteOutput _ _ _) = True"
| "is_simulation _ = False"

text \<open>
  The \<^verbatim>\<open>OpKernelContext\<close> as the kernel meets it: the shapes of the input tensors, and
  the results of the functions it calls that are not among the sources
  (\<^verbatim>\<open>allocate_output\<close> of TensorFlow; \<^verbatim>\<open>GetProgramsAndNumQubits\<close> and
  \<^verbatim>\<open>GetSymbolMaps\<close> of \<^verbatim>\<open>parse_context.h\<close>, which read the context;
  \<^verbatim>\<open>QsimCircuitFromProgram\<close> of \<^verbatim>\<open>util_qsim.h\<close>). \<open>schedule\<close> is the order in
  which the workers of \<^verbatim>\<open>ParallelFor\<close> run the batch indices; \<open>bond_dim\<close> is the
  attribute read by the constructor.
\<close>

record env =
  input_shapes :: "int list list"
  allocate_output :: "int list \<Rightarrow> status"
  GetProgramsAndNumQubits :: "error + (Program list \<times> int list \<times> PauliSum list list)"
  GetSymbolMaps :: "error + SymbolMap list"
  QsimCircuitFromProgram :: "Program \<Rightarrow> SymbolMap \<Rightarrow> int \<Rightarrow> error + QsimCircuit"
  schedule :: "nat list"
  bond_dim :: int

text \<open>The context as the kernel leaves it.\<close>

record ctx =
  status :: status
  output0 :: "tensor option"
  trace :: "event list"

definition valid_output :: "ctx \<Rightarrow> tensor option" where
  "valid_output c = (case status c of OK \<Rightarrow> output0 c | Failed _ \<Rightarrow> None)"

section \<open>Helpers of the kernel\<close>

text \<open>\<^verbatim>\<open>absl::StrCat\<close> of a non-negative integer: its decimal digits.\<close>

fun show_nat :: "nat \<Rightarrow> string" where
  "show_nat n =
     (if n < 10 then [''0123456789'' ! n]
      else show_nat (n div 10) @ [''0123456789'' ! (n mod 10)])"

declare show_nat.simps [simp del]

text \<open>
  \<^verbatim>\<open>const int output_dim_batch_size = context->input(0).dim_size(0)\<close>: \<^verbatim>\<open>dim_size\<close>
  is a 64-bit integer, stored into an \<^verbatim>\<open>int\<close>. The shape function of the op has checked
  the ranks of the inputs (1, 1, 2 and 2) before the kernel runs, so the two dimensions that
  the kernel reads exist.
\<close>

definition to_int :: "int \<Rightarrow> int" where
  "to_int d = sint (word_of_int d :: 32 word)"

definition dim_size :: "int list \<Rightarrow> nat \<Rightarrow> int" where
  "dim_size shp k = shp ! k"

text \<open>
  Modelled from the spec: \<^verbatim>\<open>CheckQubitsIn1D\<close> is declared in
  \<^verbatim>\<open>program_resolution.h\<close>, which is not among the sources. The qubits of a program are
  the indices of a linear chain; the check fails with \<open>TopologyError\<close> when some two-qubit
  gate of some program acts on indices that are not neighbours. The kernel passes the
  programs by pointer; the check is taken to leave them as they are.
\<close>

definition adjacent :: "nat \<Rightarrow> nat \<Rightarrow> bool" where
  "adjacent a b = (a + 1 = b \<or> b + 1 = a)"

definition op_in_1D :: "operation \<Rightarrow> bool" where
  "op_in_1D opn = (case op_qubits opn of [a, b] \<Rightarrow> adjacent a b | _ \<Rightarrow> True)"

definition CheckQubitsIn1D :: "Program list \<Rightarrow> status" where
  "CheckQubitsIn1D programs =
     (if list_all (list_all op_in_1D) programs then OK else Failed TopologyError)"

text \<open>
  Modelled from the spec: the macro \<^verbatim>\<open>NESTED_FN_STATUS_SYNC\<close> is not among the sources.
  The shared status is written under the lock; the first failure observed wins and later
  failures are discarded.
\<close>

definition NESTED_FN_STATUS_SYNC :: "status \<Rightarrow> status \<Rightarrow> status" where
  "NESTED_FN_STATUS_SYNC global_status local_status =
     (if local_status \<noteq> OK \<and> global_status = OK then local_status else global_status)"

section \<open>The resolution phase\<close>

text \<open>
  The body of the loop of \<^verbatim>\<open>construct_f\<close> at index \<open>i\<close>: the circuit is written into
  slot \<open>i\<close>, the status goes through the macro. What a failing
  \<^verbatim>\<open>QsimCircuitFromProgram\<close> leaves in the slot is not modelled: the kernel returns
  before it reads the slots.
\<close>

definition local_status :: "env \<Rightarrow> Program list \<Rightarrow> SymbolMap list \<Rightarrow> int list \<Rightarrow> nat \<Rightarrow> error + QsimCircuit" where
  "local_status e programs maps num_qubits i =
     QsimCircuitFromProgram e (programs ! i) (maps ! i) (num_qubits ! i)"

definition construct_f ::
  "env \<Rightarrow> Program list \<Rightarrow> SymbolMap list \<Rightarrow> int list \<Rightarrow> nat
   \<Rightarrow> QsimCircuit list \<times> status \<times> event list \<Rightarrow> QsimCircuit list \<times> status \<times> event list" where
  "construct_f e programs maps num_qubits i acc =
     (case acc of (qsim_circuits, parse_status, tr) \<Rightarrow>
        (case local_status e programs maps num_qubits i of
           Inr c \<Rightarrow>
             (qsim_circuits[i := c], NESTED_FN_STATUS_SYNC parse_status OK,
              tr @ [CallQsimCircuitFromProgram i])
         | Inl err \<Rightarrow>
             (qsim_circuits, NESTED_FN_STATUS_SYNC parse_status (Failed err),
              tr @ [CallQsimCircuitFromProgram i])))"

text \<open>
  \<^verbatim>\<open>ParallelFor(output_dim_batch_size, num_cycles, construct_f)\<close> shards the batch
  indices over the workers of the pool; \<open>schedule e\<close> is the order in which the workers
  get to them. The vector \<^verbatim>\<open>fused_circuits\<close> is filled too and never read.
\<close>

definition ParallelFor ::
  "env \<Rightarrow> Program list \<Rightarrow> SymbolMap list \<Rightarrow> int list
   \<Rightarrow> QsimCircuit list \<times> status \<times> event list \<Rightarrow> QsimCircuit list \<times> status \<times> event list" where
  "ParallelFor e programs maps num_qubits acc =
     fold (construct_f e programs maps num_qubits) (schedule e) acc"

section \<open>The simulation phase\<close>

record sim =
  largest_nq :: int
  sv :: MPS
  scratch :: MPS
  output_tensor :: "nat \<times> nat \<Rightarrow> real option"
  log :: "event list"

text \<open>The state before the loop of \<^verbatim>\<open>ComputeLarge\<close>: \<^verbatim>\<open>largest_nq = 1\<close> and two
  buffers of that size.\<close>

definition sim_init :: "int \<Rightarrow> (nat \<times> nat \<Rightarrow> real option) \<Rightarrow> sim" where
  "sim_init bd out =
     \<lparr>largest_nq = 1, sv = Create 1 bd, scratch = Create 1 bd, output_tensor = out,
      log = [CallCreate 1 bd, CallCreate 1 bd]\<rparr>"

text \<open>\<^verbatim>\<open>if (nq > largest_nq) { largest_nq = nq; sv = ...; scratch = ...; }\<close>\<close>

definition grow :: "int \<Rightarrow> int \<Rightarrow> sim \<Rightarrow> sim" where
  "grow bd nq s =
     (if nq > largest_nq s
      then s\<lparr>largest_nq := nq, sv := Create nq bd, scratch := Create nq bd,
             log := log s @ [CallCreate nq bd, CallCreate nq bd]\<rparr>
      else s)"

definition reset :: "sim \<Rightarrow> sim" where
  "reset s = s\<lparr>sv := SetStateZero (sv s), log := log s @ [CallSetStateZero]\<rparr>"

text \<open>The loop over \<open>j\<close> that applies the gates of one circuit.\<close>

definition apply_gate :: "QsimGate \<Rightarrow> sim \<Rightarrow> sim" where
  "apply_gate g s = s\<lparr>sv := ApplyGate g (sv s), log := log s @ [CallApplyGate g]\<rparr>"

text \<open>
  The loop over the Pauli sums of item \<open>i\<close>, at column \<open>j\<close>: an empty program gets
  \<open>-2.0\<close>; otherwise \<^verbatim>\<open>exp_v\<close> is set to \<open>0.0\<close>, the call of
  \<^verbatim>\<open>ComputeExpectationQsim\<close> and the assignment to the output are commented out, and
  nothing is written.
\<close>

definition pauli_step :: "nat \<Rightarrow> QsimGate list \<Rightarrow> nat \<Rightarrow> sim \<Rightarrow> sim" where
  "pauli_step i qsim_gates j s =
     (if length qsim_gates = 0
      then s\<lparr>output_tensor := (output_tensor s)((i, j) \<mapsto> - 2),
             log := log s @ [WriteOutput i j (- 2)]\<rparr>
      else s)"

text \<open>One turn of the loop over the batch in \<^verbatim>\<open>ComputeLarge\<close>.\<close>

definition large_body ::
  "int \<Rightarrow> int list \<Rightarrow> QsimCircuit list \<Rightarrow> PauliSum list list \<Rightarrow> nat \<Rightarrow> sim \<Rightarrow> sim" where
  "large_body bd num_qubits qsim_circuits pauli_sums i s =
     (let nq = num_qubits ! i;
          s1 = grow bd nq s;
          s2 = reset s1;
          qsim_gates = gates (qsim_circuits ! i);
          s3 = fold apply_gate qsim_gates s2
      in fold (pauli_step i qsim_gates) [0..<length (pauli_sums ! i)] s3)"

text \<open>The state of \<^verbatim>\<open>ComputeLarge\<close> after the first \<open>k\<close> turns of its loop.\<close>

definition large_loop ::
  "int \<Rightarrow> int list \<Rightarrow> QsimCircuit list \<Rightarrow> PauliSum list list \<Rightarrow> nat \<Rightarrow> sim \<Rightarrow> sim" where
  "large_loop bd num_qubits qsim_circuits pauli_sums k s =
     fold (large_body bd num_qubits qsim_circuits pauli_sums) [0..<k] s"

definition ComputeLarge ::
  "int \<Rightarrow> int list \<Rightarrow> QsimCircuit list \<Rightarrow> PauliSum list list
   \<Rightarrow> (nat \<times> nat \<Rightarrow> real option) \<Rightarrow> sim" where
  "ComputeLarge bd num_qubits qsim_circuits pauli_sums out =
     large_loop bd num_qubits qsim_circuits pauli_sums (length qsim_circuits) (sim_init bd out)"

text \<open>\<^verbatim>\<open>ComputeSmall\<close>: every line of its body is commented out.\<close>

definition ComputeSmall ::
  "int list \<Rightarrow> int \<Rightarrow> QsimCircuit list \<Rightarrow> PauliSum list list
   \<Rightarrow> (nat \<times> nat \<Rightarrow> real option) \<Rightarrow> (nat \<times> nat \<Rightarrow> real option)" where
  "ComputeSmall num_qubits max_num_qubits qsim_circuits pauli_sums out = out"

section \<open>The kernel\<close>

definition max_qubits :: "int list \<Rightarrow> int" where
  "max_qubits num_qubits = fold (\<lambda>num max_num_qubits. max max_num_qubits num) num_qubits 0"

text \<open>\<^verbatim>\<open>if (true || max_num_qubits >= 26 || programs.size() == 1)\<close>\<close>

definition dispatch_large :: "int \<Rightarrow> nat \<Rightarrow> bool" where
  "dispatch_large max_num_qubits n_programs = (True \<or> max_num_qubits \<ge> 26 \<or> n_programs = 1)"

definition stop :: "error \<Rightarrow> tensor option \<Rightarrow> event list \<Rightarrow> ctx" where
  "stop err out tr = \<lparr>status = Failed err, output0 = out, trace = tr\<rparr>"

definition Compute :: "env \<Rightarrow> ctx" where
  "Compute e =
     (let num_inputs = length (input_shapes e) in
      if num_inputs \<noteq> 4
      then stop (InvalidArgument (''Expected 4 inputs, got '' @ show_nat num_inputs @ '' inputs.''))
             None []
      else
      (let output_dim_batch_size = to_int (dim_size (input_shapes e ! 0) 0);
           output_dim_op_size = to_int (dim_size (input_shapes e ! 3) 1);
           output_shape = [output_dim_batch_size, output_dim_op_size];
           t1 = [CallAllocateOutput output_shape]
       in
       (case allocate_output e output_shape of
          Failed err \<Rightarrow> stop err None t1
        | OK \<Rightarrow>
       (let out = allocated output_shape;
            t2 = t1 @ [CallGetProgramsAndNumQubits]
        in
        (case GetProgramsAndNumQubits e of
           Inl err \<Rightarrow> stop err (Some out) t2
         | Inr (programs, num_qubits, pauli_sums) \<Rightarrow>
        (let t3 = t2 @ [CallGetSymbolMaps] in
         (case GetSymbolMaps e of
            Inl err \<Rightarrow> stop err (Some out) t3
          | Inr maps \<Rightarrow>
         (if length programs \<noteq> length maps
          then stop (InvalidArgument
                      (''Number of circuits and symbol_values do not match. Got ''
                       @ show_nat (length programs) @ '' circuits and ''
                       @ show_nat (length maps) @ '' symbol values.''))
                 (Some out) t3
          else
          (let t4 = t3 @ [CallCheckQubitsIn1D] in
           (case CheckQubitsIn1D programs of
              Failed err \<Rightarrow> stop err (Some out) t4
            | OK \<Rightarrow>
           (case ParallelFor e programs maps num_qubits
                   (replicate (length programs) empty_circuit, OK, t4) of
              (qsim_circuits, parse_status, t5) \<Rightarrow>
           (case parse_status of
              Failed err \<Rightarrow> stop err (Some out) t5
            | OK \<Rightarrow>
           (let max_num_qubits = max_qubits num_qubits in
            if dispatch_large max_num_qubits (length programs)
            then
              (let s = ComputeLarge (bond_dim e) num_qubits qsim_circuits pauli_sums (cells out)
               in \<lparr>status = OK, output0 = Some (out\<lparr>cells := output_tensor s\<rparr>),
                   trace = t5 @ [EnterComputeLarge] @ log s\<rparr>)
            else
              \<lparr>status = OK,
               output0 = Some (out\<lparr>cells :=
                 ComputeSmall num_qubits max_num_qubits qsim_circuits pauli_sums (cells out)\<rparr>),
               trace = t5 @ [EnterComputeSmall]\<rparr>)))))))))))))"

text \<open>
  The shape function of the op. A shape is a list of dimensions, \<open>None\<close> for one that is
  not known, or is of unknown rank. \<^verbatim>\<open>WithRank\<close> accepts a shape of the rank asked for,
  and turns a shape of unknown rank into one of that rank with unknown dimensions.
\<close>

type_synonym shape_handle = "int option list option"

definition WithRank :: "shape_handle \<Rightarrow> nat \<Rightarrow> error + int option list" where
  "WithRank shp r =
     (case shp of
        None \<Rightarrow> Inr (replicate r None)
      | Some ds \<Rightarrow>
          if length ds = r then Inr ds
          else Inl (InvalidArgument
                 (''Shape must be rank '' @ show_nat r @ '' but is rank '' @ show_nat (length ds))))"

definition shape_fn :: "shape_handle list \<Rightarrow> error + int option list" where
  "shape_fn inputs =
     (case WithRank (inputs ! 0) 1 of Inl err \<Rightarrow> Inl err | Inr programs_shape \<Rightarrow>
     (case WithRank (inputs ! 1) 1 of Inl err \<Rightarrow> Inl err | Inr symbol_names_shape \<Rightarrow>
     (case WithRank (inputs ! 2) 2 of Inl err \<Rightarrow> Inl err | Inr symbol_values_shape \<Rightarrow>
     (case WithRank (inputs ! 3) 2 of Inl err \<Rightarrow> Inl err | Inr pauli_sums_shape \<Rightarrow>
     (let output_rows = programs_shape ! 0;
          output_cols = pauli_sums_shape ! 1
      in Inr [output_rows, output_cols])))))"

section \<open>Notions used to state the properties\<close>

text \<open>The two dimensions of \<^verbatim>\<open>output_shape\<close>.\<close>

definition output_dims :: "env \<Rightarrow> int list" where
  "output_dims e =
     [to_int (dim_size (input_shapes e ! 0) 0), to_int (dim_size (input_shapes e ! 3) 1)]"

text \<open>
  The kernel gets as far as the resolution phase: four inputs, the output allocated, both
  parsers succeed with \<open>programs\<close>, \<open>num_qubits\<close>, \<open>pauli_sums\<close> and \<open>maps\<close>, the two
  batch sizes agree and the topology check passes.
\<close>

definition reaches_resolution ::
  "env \<Rightarrow> Program list \<Rightarrow> int list \<Rightarrow> PauliSum list list \<Rightarrow> SymbolMap list \<Rightarrow> bool" where
  "reaches_resolution e programs num_qubits pauli_sums maps =
     (length (input_shapes e) = 4 \<and>
      allocate_output e (output_dims e) = OK \<and>
      GetProgramsAndNumQubits e = Inr (programs, num_qubits, pauli_sums) \<and>
      GetSymbolMaps e = Inr maps \<and>
      length programs = length maps \<and>
      CheckQubitsIn1D programs = OK)"

text \<open>The calls made before the resolution phase.\<close>

definition calls_before_resolution :: "env \<Rightarrow> event list" where
  "calls_before_resolution e =
     [CallAllocateOutput (output_dims e), CallGetProgramsAndNumQubits, CallGetSymbolMaps,
      CallCheckQubitsIn1D]"

text \<open>Cell \<open>(i, j)\<close> of the output tensor, \<open>None\<close> when the kernel has not written it.\<close>

definition output_cell :: "ctx \<Rightarrow> nat \<Rightarrow> nat \<Rightarrow> real option" where
  "output_cell c i j = (case output0 c of None \<Rightarrow> None | Some t \<Rightarrow> cells t (i, j))"

text \<open>
  The float that sits in cell \<open>(i, j)\<close> of the output buffer after the run, when the
  buffer that \<^verbatim>\<open>allocate_output\<close> returned held \<open>left\<close>: a cell that the kernel has
  not written still holds what was left there.
\<close>

definition cell_in_memory :: "(nat \<times> nat \<Rightarrow> real) \<Rightarrow> ctx \<Rightarrow> nat \<Rightarrow> nat \<Rightarrow> real" where
  "cell_in_memory left c i j = (case output_cell c i j of None \<Rightarrow> left (i, j) | Some v \<Rightarrow> v)"

fun is_resolution :: "event \<Rightarrow> bool" where
  "is_resolution (CallQsimCircuitFromProgram _) = True"
| "is_resolution _ = False"

text \<open>The first batch index, in the order of the workers, whose resolution fails.\<close>

definition first_failure :: "env \<Rightarrow> Program list \<Rightarrow> SymbolMap list \<Rightarrow> int list \<Rightarrow> nat option" where
  "first_failure e programs maps num_qubits =
     List.find (\<lambda>i. isl (local_status e programs maps num_qubits i)) (schedule e)"

text \<open>The circuit in slot \<open>k\<close> after a resolution phase in which no item failed.\<close>

definition resolved :: "env \<Rightarrow> Program list \<Rightarrow> SymbolMap list \<Rightarrow> int list \<Rightarrow> nat \<Rightarrow> QsimCircuit" where
  "resolved e programs maps num_qubits k =
     (if k \<in> set (schedule e) then projr (local_status e programs maps num_qubits k)
      else empty_circuit)"

text \<open>The state of \<^verbatim>\<open>ComputeLarge\<close> after \<open>k\<close> turns of its loop over the batch.\<close>

definition state_after ::
  "int \<Rightarrow> int list \<Rightarrow> QsimCircuit list \<Rightarrow> PauliSum list list \<Rightarrow> nat \<Rightarrow> sim" where
  "state_after bd num_qubits qsim_circuits pauli_sums k =
     large_loop bd num_qubits qsim_circuits pauli_sums k (sim_init bd (\<lambda>_. None))"

section \<open>Scenarios\<close>

text \<open>
  Modelled from the spec: \<^verbatim>\<open>QsimCircuitFromProgram\<close> is not among the sources, and the
  properties below hold for any resolver. The scenarios use this one: a symbol that the
  map does not define is an error, and every operation becomes one gate on the same
  qubits.
\<close>

definition gate_matrix :: "string \<Rightarrow> real list" where
  "gate_matrix name = (if name = ''X'' then [0, 0, 1, 0, 1, 0, 0, 0] else [])"

definition unresolved :: "SymbolMap \<Rightarrow> param \<Rightarrow> bool" where
  "unresolved m a = (case a of Sym x \<Rightarrow> map_of m x = None | Const _ \<Rightarrow> False)"

definition example_resolver :: "Program \<Rightarrow> SymbolMap \<Rightarrow> int \<Rightarrow> error + QsimCircuit" where
  "example_resolver p m nq =
     (case List.find (unresolved m) (concat (map op_args p)) of
        Some (Sym x) \<Rightarrow> Inl (UnresolvedSymbolError x)
      | _ \<Rightarrow>
          Inr \<lparr>circuit_num_qubits = nat nq,
               gates = map (\<lambda>opn. \<lparr>qubits = op_qubits opn, matrix = gate_matrix (gate_id opn)\<rparr>) p\<rparr>)"

text \<open>A context whose parsers return the given batch, with \<open>n_obs\<close> observables per item.\<close>

definition batch_env ::
  "Program list \<Rightarrow> SymbolMap list \<Rightarrow> int list \<Rightarrow> PauliSum list list \<Rightarrow> nat \<Rightarrow> nat list \<Rightarrow> env" where
  "batch_env programs maps num_qubits pauli_sums n_obs sched =
     \<lparr>input_shapes =
        [[int (length programs)], [0], [int (length maps), 0], [int (length programs), int n_obs]],
      allocate_output = (\<lambda>_. OK),
      GetProgramsAndNumQubits = Inr (programs, num_qubits, pauli_sums),
      GetSymbolMaps = Inr maps,
      QsimCircuitFromProgram = example_resolver,
      schedule = sched,
      bond_dim = 2\<rparr>"

definition x_gate :: operation where
  "x_gate = \<lparr>gate_id = ''X'', op_qubits = [0], op_args = []\<rparr>"

definition rx_gate :: "string \<Rightarrow> operation" where
  "rx_gate x = \<lparr>gate_id = ''RX'', op_qubits = [0], op_args = [Sym x]\<rparr>"

definition cnot_gate :: "nat \<Rightarrow> nat \<Rightarrow> operation" where
  "cnot_gate a b = \<lparr>gate_id = ''CNOT'', op_qubits = [a, b], op_args = []\<rparr>"

definition z_on_0 :: PauliSum where
  "z_on_0 = [\<lparr>coefficient = 1, paulis = [(0, PauliZ)]\<rparr>]"

definition x_on_0 :: PauliSum where
  "x_on_0 = [\<lparr>coefficient = 1, paulis = [(0, PauliX)]\<rparr>]"

text \<open>Program = [X on qubit 0], SymbolMap = {}, PauliSum = {Z on qubit 0, weight 1.0}.\<close>

definition scenario_x_gate :: env where
  "scenario_x_gate = batch_env [[x_gate]] [[]] [1] [[z_on_0]] 1 [0]"

text \<open>One empty program, observables Z on qubit 0 and X on qubit 0.\<close>

definition scenario_empty :: env where
  "scenario_empty = batch_env [[]] [[]] [1] [[z_on_0, x_on_0]] 2 [0]"

text \<open>An empty program and an X gate; the workers run the second item first.\<close>

definition scenario_two :: "nat list \<Rightarrow> env" where
  "scenario_two sched = batch_env [[], [x_gate]] [[], []] [1, 1] [[z_on_0], [z_on_0]] 1 sched"

text \<open>Two programs with symbols that their maps do not define.\<close>

definition scenario_unresolved :: "nat list \<Rightarrow> env" where
  "scenario_unresolved sched =
     batch_env [[rx_gate ''a''], [rx_gate ''b'']] [[], []] [1, 1] [[z_on_0], [z_on_0]] 1 sched"

text \<open>Two programs, one symbol map.\<close>

definition scenario_mismatch :: env where
  "scenario_mismatch = batch_env [[x_gate], [x_gate]] [[]] [1, 1] [[z_on_0], [z_on_0]] 1 [0, 1]"

text \<open>A CNOT on qubits 0 and 2 of a chain of three.\<close>

definition scenario_not_1D :: env where
  "scenario_not_1D = batch_env [[cnot_gate 0 2]] [[]] [3] [[z_on_0]] 1 [0]"

text \<open>Resolved circuits for a batch on three and on two qubits: an X gate, then no gate.\<close>

definition two_circuits :: "QsimCircuit list" where
  "two_circuits =
     [\<lparr>circuit_num_qubits = 3, gates = [\<lparr>qubits = [0], matrix = gate_matrix ''X''\<rparr>]\<rparr>,
      \<lparr>circuit_num_qubits = 2, gates = []\<rparr>]"

text \<open>Three inputs instead of four.\<close>

definition scenario_three_inputs :: env where
  "scenario_three_inputs = (scenario_x_gate)\<lparr>input_shapes := [[1], [0], [1, 0]]\<rparr>"

section \<open>Facts about the embedding\<close>

subsection \<open>The resolution phase\<close>

lemma to_int_id: "0 \<le> d \<Longrightarrow> d < 2 ^ 31 \<Longrightarrow> to_int d = d"
  unfolding to_int_def by (simp add: sint_sbintrunc' signed_take_bit_int_eq_self)

lemma dispatch_large_always: "dispatch_large m n"
  by (simp add: dispatch_large_def)

lemma sync_OK [simp]: "NESTED_FN_STATUS_SYNC st OK = st"
  by (simp add: NESTED_FN_STATUS_SYNC_def)

lemma sync_Failed_Failed [simp]: "NESTED_FN_STATUS_SYNC (Failed x) st = Failed x"
  by (simp add: NESTED_FN_STATUS_SYNC_def)

lemma sync_OK_Failed [simp]: "NESTED_FN_STATUS_SYNC OK (Failed x) = Failed x"
  by (simp add: NESTED_FN_STATUS_SYNC_def)

lemma construct_f_apply:
  "construct_f e P M N i (cs, st, tr) =
     (case local_status e P M N i of
        Inr c \<Rightarrow> (cs[i := c], st, tr @ [CallQsimCircuitFromProgram i])
      | Inl err \<Rightarrow> (cs, NESTED_FN_STATUS_SYNC st (Failed err), tr @ [CallQsimCircuitFromProgram i]))"
  by (simp add: construct_f_def split: sum.splits)

lemma construct_f_Inr:
  "local_status e P M N i = Inr c \<Longrightarrow>
   construct_f e P M N i (cs, st, tr) = (cs[i := c], st, tr @ [CallQsimCircuitFromProgram i])"
  by (simp add: construct_f_def)

lemma construct_f_Inl:
  "local_status e P M N i = Inl err \<Longrightarrow>
   construct_f e P M N i (cs, st, tr) =
     (cs, NESTED_FN_STATUS_SYNC st (Failed err), tr @ [CallQsimCircuitFromProgram i])"
  by (simp add: construct_f_def)

lemma construct_trace:
  "snd (snd (fold (construct_f e P M N) sched (cs, st, tr))) =
     tr @ map CallQsimCircuitFromProgram sched"
  by (induction sched arbitrary: cs st tr)
     (auto simp: construct_f_apply split: sum.splits)

lemma construct_status_Failed:
  "fst (snd (fold (construct_f e P M N) sched (cs, Failed x, tr))) = Failed x"
  by (induction sched arbitrary: cs tr)
     (auto simp: construct_f_apply split: sum.splits)

lemma construct_circuits:
  "\<forall>i\<in>set sched. \<not> isl (local_status e P M N i) \<Longrightarrow>
   fst (fold (construct_f e P M N) sched (cs, st, tr)) =
     map (\<lambda>k. if k \<in> set sched then projr (local_status e P M N k) else cs ! k) [0..<length cs]"
proof (induction sched arbitrary: cs st tr)
  case Nil
  then show ?case by (simp add: map_nth)
next
  case (Cons a sched)
  from Cons.prems obtain c where c: "local_status e P M N a = Inr c"
    by (cases "local_status e P M N a") auto
  from Cons.prems have rest: "\<forall>i\<in>set sched. \<not> isl (local_status e P M N i)" by simp
  show ?case
    using c by (simp add: construct_f_Inr Cons.IH [OF rest] nth_list_update)
qed


subsection \<open>The loop of the simulation phase\<close>

lemma grow_fields:
  "largest_nq (grow bd nq s) = max (largest_nq s) nq"
  "sv (grow bd nq s) = (if nq > largest_nq s then Create nq bd else sv s)"
  "scratch (grow bd nq s) = (if nq > largest_nq s then Create nq bd else scratch s)"
  "output_tensor (grow bd nq s) = output_tensor s"
  "log (grow bd nq s) =
     log s @ (if nq > largest_nq s then [CallCreate nq bd, CallCreate nq bd] else [])"
  by (simp_all add: grow_def)

lemma reset_fields:
  "largest_nq (reset s) = largest_nq s"
  "sv (reset s) = SetStateZero (sv s)"
  "scratch (reset s) = scratch s"
  "output_tensor (reset s) = output_tensor s"
  "log (reset s) = log s @ [CallSetStateZero]"
  by (simp_all add: reset_def)

lemma apply_gate_fields:
  "largest_nq (apply_gate g s) = largest_nq s"
  "sv (apply_gate g s) = ApplyGate g (sv s)"
  "scratch (apply_gate g s) = scratch s"
  "output_tensor (apply_gate g s) = output_tensor s"
  "log (apply_gate g s) = log s @ [CallApplyGate g]"
  by (simp_all add: apply_gate_def)

lemma apply_gates_fields:
  "largest_nq (fold apply_gate gs s) = largest_nq s"
  "sv (fold apply_gate gs s) = fold ApplyGate gs (sv s)"
  "scratch (fold apply_gate gs s) = scratch s"
  "output_tensor (fold apply_gate gs s) = output_tensor s"
  "log (fold apply_gate gs s) = log s @ map CallApplyGate gs"
  by (induction gs arbitrary: s; simp add: apply_gate_fields)+

lemma ApplyGate_fold:
  "fold ApplyGate gs m = m\<lparr>history := map_option (\<lambda>h. h @ gs) (history m)\<rparr>"
proof (induction gs arbitrary: m)
  case Nil
  show ?case by (cases "history m") simp_all
next
  case (Cons g gs)
  have "fold ApplyGate (g # gs) m = fold ApplyGate gs (ApplyGate g m)"
    by simp
  also have "\<dots> = (ApplyGate g m)\<lparr>history := map_option (\<lambda>h. h @ gs) (history (ApplyGate g m))\<rparr>"
    by (rule Cons.IH)
  also have "\<dots> = m\<lparr>history := map_option (\<lambda>h. h @ g # gs) (history m)\<rparr>"
    by (cases "history m") (simp_all add: ApplyGate_def)
  finally show ?case .
qed

lemma pauli_step_fields:
  "largest_nq (pauli_step i gs j s) = largest_nq s"
  "sv (pauli_step i gs j s) = sv s"
  "scratch (pauli_step i gs j s) = scratch s"
  "output_tensor (pauli_step i gs j s) =
     (if gs = [] then (output_tensor s)((i, j) \<mapsto> - 2) else output_tensor s)"
  "log (pauli_step i gs j s) = log s @ (if gs = [] then [WriteOutput i j (- 2)] else [])"
  by (simp_all add: pauli_step_def)

lemma pauli_loop_fields:
  "largest_nq (fold (pauli_step i gs) js s) = largest_nq s"
  "sv (fold (pauli_step i gs) js s) = sv s"
  "scratch (fold (pauli_step i gs) js s) = scratch s"
  "log (fold (pauli_step i gs) js s) =
     log s @ (if gs = [] then map (\<lambda>j. WriteOutput i j (- 2)) js else [])"
  by (induction js arbitrary: s; simp add: pauli_step_fields)+

lemma pauli_loop_output:
  "output_tensor (fold (pauli_step i gs) js s) =
     (\<lambda>p. if gs = [] \<and> fst p = i \<and> snd p \<in> set js then Some (- 2) else output_tensor s p)"
proof (induction js arbitrary: s)
  case Nil
  show ?case by simp
next
  case (Cons j js)
  show ?case by (auto simp: Cons.IH pauli_step_fields fun_eq_iff)
qed

lemma large_body_fields:
  "largest_nq (large_body bd N C P i s) = max (largest_nq s) (N ! i)"
  "sv (large_body bd N C P i s) =
     (if N ! i > largest_nq s then Create (N ! i) bd else sv s)\<lparr>history := Some (gates (C ! i))\<rparr>"
  "scratch (large_body bd N C P i s) =
     (if N ! i > largest_nq s then Create (N ! i) bd else scratch s)"
  "output_tensor (large_body bd N C P i s) =
     (\<lambda>p. if gates (C ! i) = [] \<and> fst p = i \<and> snd p < length (P ! i)
          then Some (- 2) else output_tensor s p)"
  "log (large_body bd N C P i s) =
     log s @ (if N ! i > largest_nq s then [CallCreate (N ! i) bd, CallCreate (N ! i) bd] else [])
       @ [CallSetStateZero] @ map CallApplyGate (gates (C ! i))
       @ (if gates (C ! i) = [] then map (\<lambda>j. WriteOutput i j (- 2)) [0..<length (P ! i)] else [])"
  by (simp_all add: large_body_def Let_def pauli_loop_fields pauli_loop_output apply_gates_fields
        reset_fields grow_fields ApplyGate_fold SetStateZero_def cong: if_cong)

lemma large_loop_0: "large_loop bd N C P 0 s = s"
  by (simp add: large_loop_def)

lemma large_loop_Suc:
  "large_loop bd N C P (Suc k) s = large_body bd N C P k (large_loop bd N C P k s)"
  by (simp add: large_loop_def)

lemma large_loop_output:
  "output_tensor (large_loop bd N C P k s) =
     (\<lambda>p. if fst p < k \<and> gates (C ! fst p) = [] \<and> snd p < length (P ! fst p)
          then Some (- 2) else output_tensor s p)"
proof (induction k)
  case 0
  show ?case by (simp add: large_loop_0)
next
  case (Suc k)
  show ?case
    by (auto simp: large_loop_Suc large_body_fields Suc.IH fun_eq_iff less_Suc_eq)
qed

lemma large_loop_mono_step:
  "largest_nq (large_loop bd N C P k s) \<le> largest_nq (large_loop bd N C P (Suc k) s)"
  by (simp add: large_loop_Suc large_body_fields)

lemma large_loop_mono:
  "k \<le> k' \<Longrightarrow> largest_nq (large_loop bd N C P k s) \<le> largest_nq (large_loop bd N C P k' s)"
proof (induction k' )
  case 0
  then show ?case by simp
next
  case (Suc k')
  show ?case
  proof (cases "k = Suc k'")
    case True
    then show ?thesis by simp
  next
    case False
    with Suc.prems have "k \<le> k'" by simp
    from Suc.IH [OF this] large_loop_mono_step [of bd N C P k' s] show ?thesis by linarith
  qed
qed

lemma large_loop_size:
  "mps_num_qubits (sv s) = largest_nq s \<Longrightarrow>
   mps_num_qubits (sv (large_loop bd N C P k s)) = largest_nq (large_loop bd N C P k s)"
proof (induction k)
  case 0
  then show ?case by (simp add: large_loop_0)
next
  case (Suc k)
  then show ?case
    by (simp add: large_loop_Suc large_body_fields Create_def max_def)
qed

lemma large_loop_log:
  "list_all is_simulation (log s) \<Longrightarrow> EnterComputeSmall \<notin> set (log s) \<Longrightarrow>
   list_all is_simulation (log (large_loop bd N C P k s)) \<and>
   EnterComputeSmall \<notin> set (log (large_loop bd N C P k s))"
proof (induction k)
  case 0
  then show ?case by (simp add: large_loop_0)
next
  case (Suc k)
  then show ?case
    by (auto simp: large_loop_Suc large_body_fields list_all_iff)
qed


subsection \<open>The exits of the kernel\<close>

lemma Compute_wrong_inputs:
  "length (input_shapes e) \<noteq> 4 \<Longrightarrow>
   Compute e =
     stop (InvalidArgument
            (''Expected 4 inputs, got '' @ show_nat (length (input_shapes e)) @ '' inputs.''))
       None []"
  by (simp add: Compute_def)

lemma Compute_alloc_failed:
  "length (input_shapes e) = 4 \<Longrightarrow> allocate_output e (output_dims e) = Failed err \<Longrightarrow>
   Compute e = stop err None [CallAllocateOutput (output_dims e)]"
  by (simp add: Compute_def output_dims_def Let_def)

lemma Compute_programs_failed:
  "length (input_shapes e) = 4 \<Longrightarrow> allocate_output e (output_dims e) = OK \<Longrightarrow>
   GetProgramsAndNumQubits e = Inl err \<Longrightarrow>
   Compute e = stop err (Some (allocated (output_dims e)))
     [CallAllocateOutput (output_dims e), CallGetProgramsAndNumQubits]"
  by (simp add: Compute_def output_dims_def Let_def)

lemma Compute_maps_failed:
  "length (input_shapes e) = 4 \<Longrightarrow> allocate_output e (output_dims e) = OK \<Longrightarrow>
   GetProgramsAndNumQubits e = Inr (P, N, S) \<Longrightarrow> GetSymbolMaps e = Inl err \<Longrightarrow>
   Compute e = stop err (Some (allocated (output_dims e)))
     [CallAllocateOutput (output_dims e), CallGetProgramsAndNumQubits, CallGetSymbolMaps]"
  by (simp add: Compute_def output_dims_def Let_def)

lemma Compute_mismatch:
  "length (input_shapes e) = 4 \<Longrightarrow> allocate_output e (output_dims e) = OK \<Longrightarrow>
   GetProgramsAndNumQubits e = Inr (P, N, S) \<Longrightarrow> GetSymbolMaps e = Inr M \<Longrightarrow>
   length P \<noteq> length M \<Longrightarrow>
   Compute e =
     stop (InvalidArgument
            (''Number of circuits and symbol_values do not match. Got ''
             @ show_nat (length P) @ '' circuits and ''
             @ show_nat (length M) @ '' symbol values.''))
       (Some (allocated (output_dims e)))
       [CallAllocateOutput (output_dims e), CallGetProgramsAndNumQubits, CallGetSymbolMaps]"
  by (simp add: Compute_def output_dims_def Let_def)

lemma Compute_check_failed:
  "length (input_shapes e) = 4 \<Longrightarrow> allocate_output e (output_dims e) = OK \<Longrightarrow>
   GetProgramsAndNumQubits e = Inr (P, N, S) \<Longrightarrow> GetSymbolMaps e = Inr M \<Longrightarrow>
   length P = length M \<Longrightarrow> CheckQubitsIn1D P = Failed err \<Longrightarrow>
   Compute e = stop err (Some (allocated (output_dims e))) (calls_before_resolution e)"
  by (simp add: Compute_def output_dims_def calls_before_resolution_def Let_def)

lemma Compute_resolution:
  "reaches_resolution e P N S M \<Longrightarrow>
   Compute e =
     (case ParallelFor e P M N (replicate (length P) empty_circuit, OK, calls_before_resolution e) of
        (qsim_circuits, parse_status, t5) \<Rightarrow>
          (case parse_status of
             Failed err \<Rightarrow> stop err (Some (allocated (output_dims e))) t5
           | OK \<Rightarrow>
               \<lparr>status = OK,
                output0 = Some ((allocated (output_dims e))
                  \<lparr>cells := output_tensor (ComputeLarge (bond_dim e) N qsim_circuits S (\<lambda>_. None))\<rparr>),
                trace = t5 @ [EnterComputeLarge]
                  @ log (ComputeLarge (bond_dim e) N qsim_circuits S (\<lambda>_. None))\<rparr>))"
  by (simp add: Compute_def reaches_resolution_def output_dims_def calls_before_resolution_def Let_def
        dispatch_large_def allocated_def split: prod.split status.split)

subsection \<open>The two outcomes of the resolution phase\<close>

lemma construct_status_find:
  "fst (snd (fold (construct_f e P M N) sched (cs, OK, tr))) =
     (case List.find (\<lambda>i. isl (local_status e P M N i)) sched of
        None \<Rightarrow> OK
      | Some k \<Rightarrow> Failed (projl (local_status e P M N k)))"
proof (induction sched arbitrary: cs tr)
  case Nil
  show ?case by simp
next
  case (Cons a sched)
  show ?case
  proof (cases "local_status e P M N a")
    case (Inl err)
    then show ?thesis by (simp add: construct_f_Inl construct_status_Failed)
  next
    case (Inr c)
    then show ?thesis by (simp add: construct_f_Inr Cons.IH)
  qed
qed

lemma first_failure_None:
  "first_failure e P M N = None \<longleftrightarrow> (\<forall>i\<in>set (schedule e). \<not> isl (local_status e P M N i))"
  by (auto simp: first_failure_def find_None_iff)

lemma first_failure_Some:
  "first_failure e P M N = Some k \<Longrightarrow>
   k \<in> set (schedule e) \<and> (\<exists>err. local_status e P M N k = Inl err)"
  by (cases "local_status e P M N k") (auto simp: first_failure_def find_Some_iff)

lemma Compute_resolution_failed:
  assumes "reaches_resolution e P N S M" and "first_failure e P M N = Some k"
  shows "Compute e =
           stop (projl (local_status e P M N k)) (Some (allocated (output_dims e)))
             (calls_before_resolution e @ map CallQsimCircuitFromProgram (schedule e))"
  using assms(2)
  by (simp add: Compute_resolution [OF assms(1)] ParallelFor_def case_prod_beta
        construct_status_find construct_trace first_failure_def)

lemma ComputeLarge_output:
  "output_tensor (ComputeLarge bd N C S out) =
     (\<lambda>p. if fst p < length C \<and> gates (C ! fst p) = [] \<and> snd p < length (S ! fst p)
          then Some (- 2) else out p)"
  by (simp add: ComputeLarge_def large_loop_output sim_init_def cong: if_cong)

lemma ComputeLarge_log:
  "list_all is_simulation (log (ComputeLarge bd N C S out)) \<and>
   EnterComputeSmall \<notin> set (log (ComputeLarge bd N C S out))"
  unfolding ComputeLarge_def
  by (rule large_loop_log) (simp_all add: sim_init_def)

lemma resolved_circuits:
  assumes "first_failure e P M N = None"
  shows "fst (ParallelFor e P M N (replicate n empty_circuit, OK, tr)) =
           map (resolved e P M N) [0..<n]"
proof -
  from assms have "\<forall>i\<in>set (schedule e). \<not> isl (local_status e P M N i)"
    by (simp add: first_failure_None)
  then show ?thesis
    by (simp add: ParallelFor_def construct_circuits resolved_def)
qed

lemma Compute_success:
  assumes "reaches_resolution e P N S M" and "first_failure e P M N = None"
  shows "status (Compute e) = OK"
    and "output0 (Compute e) =
           Some \<lparr>tshape = output_dims e,
                 cells = (\<lambda>p. if fst p < length P \<and> gates (resolved e P M N (fst p)) = []
                                  \<and> snd p < length (S ! fst p)
                               then Some (- 2) else None)\<rparr>"
    and "trace (Compute e) =
           calls_before_resolution e @ map CallQsimCircuitFromProgram (schedule e)
             @ [EnterComputeLarge]
             @ log (ComputeLarge (bond_dim e) N (map (resolved e P M N) [0..<length P]) S (\<lambda>_. None))"
proof -
  let ?acc = "(replicate (length P) empty_circuit, OK, calls_before_resolution e)"
  have c: "fst (ParallelFor e P M N ?acc) = map (resolved e P M N) [0..<length P]"
    using assms(2) by (rule resolved_circuits)
  have s: "fst (snd (ParallelFor e P M N ?acc)) = OK"
    using assms(2) by (simp add: ParallelFor_def construct_status_find first_failure_def)
  have t: "snd (snd (ParallelFor e P M N ?acc)) =
             calls_before_resolution e @ map CallQsimCircuitFromProgram (schedule e)"
    by (simp add: ParallelFor_def construct_trace)
  show "status (Compute e) = OK"
    by (simp add: Compute_resolution [OF assms(1)] case_prod_beta s)
  show "trace (Compute e) =
           calls_before_resolution e @ map CallQsimCircuitFromProgram (schedule e)
             @ [EnterComputeLarge]
             @ log (ComputeLarge (bond_dim e) N (map (resolved e P M N) [0..<length P]) S (\<lambda>_. None))"
    by (simp add: Compute_resolution [OF assms(1)] case_prod_beta s t c)
  have "(\<lambda>p. if fst p < length P \<and> gates (map (resolved e P M N) [0..<length P] ! fst p) = []
                 \<and> snd p < length (S ! fst p)
              then Some (- 2) else None) =
        (\<lambda>p. if fst p < length P \<and> gates (resolved e P M N (fst p)) = []
                 \<and> snd p < length (S ! fst p)
              then Some (- 2 :: real) else None)"
    by (auto simp: fun_eq_iff)
  then show "output0 (Compute e) =
           Some \<lparr>tshape = output_dims e,
                 cells = (\<lambda>p. if fst p < length P \<and> gates (resolved e P M N (fst p)) = []
                                  \<and> snd p < length (S ! fst p)
                               then Some (- 2) else None)\<rparr>"
    by (simp add: Compute_resolution [OF assms(1)] case_prod_beta s c ComputeLarge_output
          allocated_def)
qed

section \<open>Properties of the kernel\<close>

lemma stop_fields:
  "status (stop err out tr) = Failed err"
  "output0 (stop err out tr) = out"
  "trace (stop err out tr) = tr"
  "valid_output (stop err out tr) = None"
  by (simp_all add: stop_def valid_output_def)

lemma scenario_fields:
  "input_shapes (batch_env P M N S n sched) =
     [[int (length P)], [0], [int (length M), 0], [int (length P), int n]]"
  "allocate_output (batch_env P M N S n sched) shp = OK"
  "GetProgramsAndNumQubits (batch_env P M N S n sched) = Inr (P, N, S)"
  "GetSymbolMaps (batch_env P M N S n sched) = Inr M"
  "QsimCircuitFromProgram (batch_env P M N S n sched) = example_resolver"
  "schedule (batch_env P M N S n sched) = sched"
  "bond_dim (batch_env P M N S n sched) = 2"
  by (simp_all add: batch_env_def)

text \<open>
  Claim C10. When the kernel is not given exactly four input tensors, it fails with an
  \<open>InvalidArgument\<close> error before it allocates the output or parses a program: no call
  has been made, there is no output, and no simulation work is done.
\<close>

theorem wrong_number_of_inputs:
  assumes "length (input_shapes e) \<noteq> 4"
  shows "status (Compute e) =
           Failed (InvalidArgument
             (''Expected 4 inputs, got '' @ show_nat (length (input_shapes e)) @ '' inputs.''))
         \<and> output0 (Compute e) = None \<and> trace (Compute e) = []
         \<and> valid_output (Compute e) = None"
  by (simp add: Compute_wrong_inputs [OF assms] stop_fields)

text \<open>Three inputs: the error is raised and nothing has been called.\<close>

theorem wrong_number_of_inputs_witness:
  "length (input_shapes scenario_three_inputs) \<noteq> 4
   \<and> status (Compute scenario_three_inputs) =
       Failed (InvalidArgument ''Expected 4 inputs, got 3 inputs.'')
   \<and> output0 (Compute scenario_three_inputs) = None
   \<and> trace (Compute scenario_three_inputs) = []"
proof -
  have n: "length (input_shapes scenario_three_inputs) = 3"
    by (simp add: scenario_three_inputs_def)
  then have h: "length (input_shapes scenario_three_inputs) \<noteq> 4"
    by simp
  have "show_nat 3 = ''3''"
    by (simp add: show_nat.simps)
  with wrong_number_of_inputs [OF h] n show ?thesis
    by simp
qed

text \<open>
  Claim C4. When the parsers return a number of programs that differs from the number of
  symbol maps, the kernel fails with the \<open>InvalidArgument\<close> error that reports the two
  batch sizes, before any circuit is resolved or simulated, and it has no valid output.
  The numbers of programs and of symbol maps exist once the kernel has its four inputs,
  its output buffer and both parse results, which is what the first four hypotheses say.
\<close>

theorem batch_size_mismatch:
  assumes "length (input_shapes e) = 4"
    and "allocate_output e (output_dims e) = OK"
    and "GetProgramsAndNumQubits e = Inr (programs, num_qubits, pauli_sums)"
    and "GetSymbolMaps e = Inr maps"
    and "length programs \<noteq> length maps"
  shows "status (Compute e) =
           Failed (InvalidArgument
             (''Number of circuits and symbol_values do not match. Got ''
              @ show_nat (length programs) @ '' circuits and ''
              @ show_nat (length maps) @ '' symbol values.''))
         \<and> \<not> list_ex is_simulation (trace (Compute e))
         \<and> \<not> list_ex is_resolution (trace (Compute e))
         \<and> valid_output (Compute e) = None"
  by (simp add: Compute_mismatch [OF assms] stop_fields)

text \<open>Two programs and one symbol map.\<close>

theorem batch_size_mismatch_witness:
  "length (input_shapes scenario_mismatch) = 4
   \<and> allocate_output scenario_mismatch (output_dims scenario_mismatch) = OK
   \<and> GetProgramsAndNumQubits scenario_mismatch =
       Inr ([[x_gate], [x_gate]], [1, 1], [[z_on_0], [z_on_0]])
   \<and> GetSymbolMaps scenario_mismatch = Inr [[]]
   \<and> status (Compute scenario_mismatch) =
       Failed (InvalidArgument
         ''Number of circuits and symbol_values do not match. Got 2 circuits and 1 symbol values.'')
   \<and> \<not> list_ex is_simulation (trace (Compute scenario_mismatch))
   \<and> \<not> list_ex is_resolution (trace (Compute scenario_mismatch))
   \<and> valid_output (Compute scenario_mismatch) = None"
proof -
  have h1: "length (input_shapes scenario_mismatch) = 4"
    and h2: "allocate_output scenario_mismatch (output_dims scenario_mismatch) = OK"
    and h3: "GetProgramsAndNumQubits scenario_mismatch =
               Inr ([[x_gate], [x_gate]], [1, 1], [[z_on_0], [z_on_0]])"
    and h4: "GetSymbolMaps scenario_mismatch = Inr [[]]"
    by (simp_all add: scenario_mismatch_def scenario_fields)
  have h5: "length [[x_gate], [x_gate]] \<noteq> length [[] :: SymbolMap]"
    by simp
  have "show_nat (Suc (Suc 0)) = ''2''" and "show_nat (Suc 0) = ''1''"
    by (simp_all add: show_nat.simps)
  with batch_size_mismatch [OF h1 h2 h3 h4 h5] h1 h2 h3 h4 show ?thesis
    by simp
qed

lemma not_in_1D:
  assumes "p \<in> set programs" and "opn \<in> set p" and "op_qubits opn = [a, b]"
    and "\<not> adjacent a b"
  shows "CheckQubitsIn1D programs = Failed TopologyError"
proof -
  from assms(3,4) have "\<not> op_in_1D opn"
    by (simp add: op_in_1D_def)
  with assms(2) have "\<not> list_all op_in_1D p"
    by (auto simp: list_all_iff)
  with assms(1) have "\<not> list_all (list_all op_in_1D) programs"
    by (auto simp: list_all_iff)
  then show ?thesis
    by (simp add: CheckQubitsIn1D_def)
qed

text \<open>
  Claim C5. When some program of the batch has a two-qubit gate on qubits that are not
  neighbours in the chain, the kernel fails with \<open>TopologyError\<close>, and the whole batch is
  abandoned before any circuit is resolved or simulated. The four first hypotheses say
  that the kernel gets to the topology check: four inputs, the output allocated, both
  parse results, and batch sizes that agree.
\<close>

theorem non_adjacent_gate:
  assumes "length (input_shapes e) = 4"
    and "allocate_output e (output_dims e) = OK"
    and "GetProgramsAndNumQubits e = Inr (programs, num_qubits, pauli_sums)"
    and "GetSymbolMaps e = Inr maps"
    and "length programs = length maps"
    and "p \<in> set programs" and "opn \<in> set p" and "op_qubits opn = [a, b]"
    and "\<not> adjacent a b"
  shows "status (Compute e) = Failed TopologyError
         \<and> \<not> list_ex is_resolution (trace (Compute e))
         \<and> \<not> list_ex is_simulation (trace (Compute e))
         \<and> valid_output (Compute e) = None"
proof -
  have "CheckQubitsIn1D programs = Failed TopologyError"
    using assms(6-9) by (rule not_in_1D)
  from Compute_check_failed [OF assms(1-5) this] show ?thesis
    by (simp add: stop_fields calls_before_resolution_def)
qed

text \<open>A CNOT on qubits 0 and 2.\<close>

theorem non_adjacent_gate_witness:
  "length (input_shapes scenario_not_1D) = 4
   \<and> allocate_output scenario_not_1D (output_dims scenario_not_1D) = OK
   \<and> GetProgramsAndNumQubits scenario_not_1D = Inr ([[cnot_gate 0 2]], [3], [[z_on_0]])
   \<and> GetSymbolMaps scenario_not_1D = Inr [[]]
   \<and> op_qubits (cnot_gate 0 2) = [0, 2] \<and> \<not> adjacent 0 2
   \<and> status (Compute scenario_not_1D) = Failed TopologyError
   \<and> \<not> list_ex is_resolution (trace (Compute scenario_not_1D))
   \<and> \<not> list_ex is_simulation (trace (Compute scenario_not_1D))
   \<and> valid_output (Compute scenario_not_1D) = None"
proof -
  have h1: "length (input_shapes scenario_not_1D) = 4"
    and h2: "allocate_output scenario_not_1D (output_dims scenario_not_1D) = OK"
    and h3: "GetProgramsAndNumQubits scenario_not_1D = Inr ([[cnot_gate 0 2]], [3], [[z_on_0]])"
    and h4: "GetSymbolMaps scenario_not_1D = Inr [[]]"
    by (simp_all add: scenario_not_1D_def scenario_fields)
  have h5: "length [[cnot_gate 0 2]] = length [[] :: SymbolMap]"
    and h6: "[cnot_gate 0 2] \<in> set [[cnot_gate 0 2]]"
    and h7: "cnot_gate 0 2 \<in> set [cnot_gate 0 2]"
    and h8: "op_qubits (cnot_gate 0 2) = [0, 2]"
    and h9: "\<not> adjacent 0 2"
    by (simp_all add: cnot_gate_def adjacent_def)
  from non_adjacent_gate [OF h1 h2 h3 h4 h5 h6 h7 h8 h9] h1 h2 h3 h4 h8 h9 show ?thesis
    by simp
qed

subsection \<open>The scenarios\<close>

lemma example_resolver_plain:
  "concat (map op_args p) = [] \<Longrightarrow>
   example_resolver p m nq =
     Inr \<lparr>circuit_num_qubits = nat nq,
          gates = map (\<lambda>opn. \<lparr>qubits = op_qubits opn, matrix = gate_matrix (gate_id opn)\<rparr>) p\<rparr>"
  by (simp add: example_resolver_def del: concat_eq_Nil_conv)

lemma example_resolver_rx:
  "example_resolver [rx_gate x] [] nq = Inl (UnresolvedSymbolError x)"
  by (simp add: example_resolver_def rx_gate_def unresolved_def)

lemma batch_env_local_status:
  "local_status (batch_env P M N S n sched) P' M' N' i = example_resolver (P' ! i) (M' ! i) (N' ! i)"
  by (simp add: local_status_def scenario_fields)

lemma batch_env_reaches:
  "length P = length M \<Longrightarrow> CheckQubitsIn1D P = OK \<Longrightarrow>
   reaches_resolution (batch_env P M N S n sched) P N S M"
  by (simp add: reaches_resolution_def scenario_fields)

text \<open>
  Claim C3. In every run that reaches the resolution phase and in which the resolution of
  some batch item fails, the error reported is the one of the first item to fail in the
  order in which the workers ran the items; the simulation phase is not entered, and the
  run has no valid output, whatever the other items gave.
\<close>

theorem first_resolution_error:
  assumes "reaches_resolution e programs num_qubits pauli_sums maps"
    and "i \<in> set (schedule e)"
    and "isl (local_status e programs maps num_qubits i)"
  shows "\<exists>k err. first_failure e programs maps num_qubits = Some k
           \<and> local_status e programs maps num_qubits k = Inl err
           \<and> status (Compute e) = Failed err
           \<and> \<not> list_ex is_simulation (trace (Compute e))
           \<and> valid_output (Compute e) = None"
proof -
  from assms(2,3) have "first_failure e programs maps num_qubits \<noteq> None"
    by (auto simp: first_failure_None)
  then obtain k where k: "first_failure e programs maps num_qubits = Some k"
    by auto
  from first_failure_Some [OF k] obtain err
    where err: "local_status e programs maps num_qubits k = Inl err"
    by auto
  have "Compute e =
          stop err (Some (allocated (output_dims e)))
            (calls_before_resolution e @ map CallQsimCircuitFromProgram (schedule e))"
    using Compute_resolution_failed [OF assms(1) k] err by simp
  then have "status (Compute e) = Failed err
      \<and> \<not> list_ex is_simulation (trace (Compute e))
      \<and> valid_output (Compute e) = None"
    by (simp add: stop_fields calls_before_resolution_def list_ex_iff image_iff)
  with k err show ?thesis
    by blast
qed

text \<open>
  Both items fail and the workers run item 1 first: the error of item 1 is reported, not
  the one of item 0.
\<close>

theorem first_resolution_error_witness:
  "reaches_resolution (scenario_unresolved [1, 0])
     [[rx_gate ''a''], [rx_gate ''b'']] [1, 1] [[z_on_0], [z_on_0]] [[], []]
   \<and> local_status (scenario_unresolved [1, 0]) [[rx_gate ''a''], [rx_gate ''b'']] [[], []] [1, 1] 0
       = Inl (UnresolvedSymbolError ''a'')
   \<and> first_failure (scenario_unresolved [1, 0]) [[rx_gate ''a''], [rx_gate ''b'']] [[], []] [1, 1]
       = Some 1
   \<and> status (Compute (scenario_unresolved [1, 0])) = Failed (UnresolvedSymbolError ''b'')
   \<and> \<not> list_ex is_simulation (trace (Compute (scenario_unresolved [1, 0])))
   \<and> valid_output (Compute (scenario_unresolved [1, 0])) = None"
proof -
  let ?e = "scenario_unresolved [1, 0]"
  let ?P = "[[rx_gate ''a''], [rx_gate ''b'']]"
  let ?M = "[[], []] :: SymbolMap list"
  have r: "reaches_resolution ?e ?P [1, 1] [[z_on_0], [z_on_0]] ?M"
    unfolding scenario_unresolved_def
    by (rule batch_env_reaches) (simp_all add: CheckQubitsIn1D_def op_in_1D_def rx_gate_def)
  have l0: "local_status ?e ?P ?M [1, 1] 0 = Inl (UnresolvedSymbolError ''a'')"
    and l1: "local_status ?e ?P ?M [1, 1] 1 = Inl (UnresolvedSymbolError ''b'')"
    by (simp_all add: scenario_unresolved_def batch_env_local_status example_resolver_rx)
  have s: "schedule ?e = [1, 0]"
    by (simp add: scenario_unresolved_def scenario_fields)
  have f: "first_failure ?e ?P ?M [1, 1] = Some 1"
    by (simp add: first_failure_def s l1 del: One_nat_def)
  have i: "0 \<in> set (schedule ?e)" and "isl (local_status ?e ?P ?M [1, 1] 0)"
    by (simp_all add: s l0 del: One_nat_def)
  from first_resolution_error [OF r this] f l1 r l0 show ?thesis
    by auto
qed

text \<open>
  The claim C2 as stated fails: for an empty program the kernel writes \<open>-2.0\<close> for
  "Z on qubit 0", not \<open>+1.0\<close>, and \<open>-2.0\<close> for "X on qubit 0", not \<open>0.0\<close>.
\<close>

theorem empty_program_sentinel_counterexample:
  "status (Compute scenario_empty) = OK
   \<and> output_cell (Compute scenario_empty) 0 0 = Some (- 2)
   \<and> output_cell (Compute scenario_empty) 0 0 \<noteq> Some 1
   \<and> output_cell (Compute scenario_empty) 0 1 = Some (- 2)
   \<and> output_cell (Compute scenario_empty) 0 1 \<noteq> Some 0"
proof -
  let ?e = "scenario_empty"
  have r: "reaches_resolution ?e [[]] [1] [[z_on_0, x_on_0]] [[]]"
    unfolding scenario_empty_def
    by (rule batch_env_reaches) (simp_all add: CheckQubitsIn1D_def)
  have l: "local_status ?e [[]] [[]] [1] 0 = Inr \<lparr>circuit_num_qubits = 1, gates = []\<rparr>"
    by (simp add: scenario_empty_def batch_env_local_status example_resolver_plain)
  have s: "schedule ?e = [0]"
    by (simp add: scenario_empty_def scenario_fields)
  have f: "first_failure ?e [[]] [[]] [1] = None"
    by (simp add: first_failure_def s l)
  have g: "gates (resolved ?e [[]] [[]] [1] 0) = []"
    by (simp add: resolved_def s l)
  show ?thesis
    by (simp add: Compute_success [OF r f] output_cell_def g)
qed

text \<open>
  Claim C2, amended. In a run in which every item is resolved, for every batch item that
  the workers ran and whose resolved gate sequence is empty, the kernel succeeds and
  writes the value \<open>-2.0\<close> into every cell of the row of that item, whatever the
  observable: the source guards the evaluation with
  \<^verbatim>\<open>if (qsim_gates.size() == 0)\<close> under the comment "Just ignore empty program".
\<close>

theorem empty_program_sentinel:
  assumes "reaches_resolution e programs num_qubits pauli_sums maps"
    and "first_failure e programs maps num_qubits = None"
    and "i < length programs" and "i \<in> set (schedule e)"
    and "local_status e programs maps num_qubits i = Inr c" and "gates c = []"
    and "j < length (pauli_sums ! i)"
  shows "status (Compute e) = OK \<and> output_cell (Compute e) i j = Some (- 2)"
proof -
  from assms(4-6) have "gates (resolved e programs maps num_qubits i) = []"
    by (simp add: resolved_def)
  with assms(3,7) show ?thesis
    by (simp add: Compute_success [OF assms(1,2)] output_cell_def)
qed

text \<open>A batch of an empty program and an X gate: the row of the empty program.\<close>

theorem empty_program_sentinel_witness:
  "reaches_resolution (scenario_two [1, 0]) [[], [x_gate]] [1, 1] [[z_on_0], [z_on_0]] [[], []]
   \<and> first_failure (scenario_two [1, 0]) [[], [x_gate]] [[], []] [1, 1] = None
   \<and> gates (projr (local_status (scenario_two [1, 0]) [[], [x_gate]] [[], []] [1, 1] 0)) = []
   \<and> status (Compute (scenario_two [1, 0])) = OK
   \<and> output_cell (Compute (scenario_two [1, 0])) 0 0 = Some (- 2)"
proof -
  let ?e = "scenario_two [1, 0]"
  let ?P = "[[], [x_gate]]"
  let ?M = "[[], []] :: SymbolMap list"
  have r: "reaches_resolution ?e ?P [1, 1] [[z_on_0], [z_on_0]] ?M"
    unfolding scenario_two_def
    by (rule batch_env_reaches) (simp_all add: CheckQubitsIn1D_def op_in_1D_def x_gate_def)
  have l0: "local_status ?e ?P ?M [1, 1] 0 = Inr \<lparr>circuit_num_qubits = 1, gates = []\<rparr>"
    by (simp add: scenario_two_def batch_env_local_status example_resolver_plain)
  have l1: "\<not> isl (local_status ?e ?P ?M [1, 1] 1)"
    by (simp add: scenario_two_def batch_env_local_status example_resolver_plain x_gate_def)
  have s: "schedule ?e = [1, 0]"
    by (simp add: scenario_two_def scenario_fields)
  have f: "first_failure ?e ?P ?M [1, 1] = None"
    by (simp add: first_failure_def s l0 l1 del: One_nat_def)
  have h: "0 < length ?P" "0 \<in> set (schedule ?e)"
    "gates \<lparr>circuit_num_qubits = 1, gates = []\<rparr> = []"
    "0 < length ([[z_on_0], [z_on_0]] ! 0)"
    by (simp_all add: s del: One_nat_def)
  from empty_program_sentinel [OF r f h(1,2) l0 h(3,4)] r f l0 show ?thesis
    by simp
qed

text \<open>
  In a run in which every item is resolved, no cell of the row of an item that has a gate
  is ever written.
\<close>

lemma program_with_gates_not_written:
  assumes "reaches_resolution e programs num_qubits pauli_sums maps"
    and "first_failure e programs maps num_qubits = None"
    and "i \<in> set (schedule e)"
    and "local_status e programs maps num_qubits i = Inr c" and "gates c \<noteq> []"
  shows "status (Compute e) = OK \<and> output_cell (Compute e) i j = None"
proof -
  from assms(3-5) have "gates (resolved e programs maps num_qubits i) \<noteq> []"
    by (simp add: resolved_def)
  then show ?thesis
    by (simp add: Compute_success [OF assms(1,2)] output_cell_def)
qed

text \<open>
  Claim C1. The output cell \<open>(i, j)\<close> should hold the expectation of observable \<open>j\<close>
  against the final state of circuit \<open>i\<close>, and \<open>-1.0\<close> for Program = [X on qubit 0]
  and PauliSum = {Z on qubit 0}. On that input the kernel succeeds and never writes the
  cell: it keeps what the allocator left there.
\<close>

theorem x_gate_cell_not_written:
  "status (Compute scenario_x_gate) = OK
   \<and> output_cell (Compute scenario_x_gate) 0 0 = None
   \<and> output_cell (Compute scenario_x_gate) 0 0 \<noteq> Some (- 1)"
proof -
  let ?e = "scenario_x_gate"
  have r: "reaches_resolution ?e [[x_gate]] [1] [[z_on_0]] [[]]"
    unfolding scenario_x_gate_def
    by (rule batch_env_reaches) (simp_all add: CheckQubitsIn1D_def op_in_1D_def x_gate_def)
  have l: "local_status ?e [[x_gate]] [[]] [1] 0 =
             Inr \<lparr>circuit_num_qubits = 1,
                  gates = [\<lparr>qubits = [0], matrix = [0, 0, 1, 0, 1, 0, 0, 0]\<rparr>]\<rparr>"
    by (simp add: scenario_x_gate_def batch_env_local_status example_resolver_plain x_gate_def
          gate_matrix_def)
  have s: "schedule ?e = [0]"
    by (simp add: scenario_x_gate_def scenario_fields)
  have f: "first_failure ?e [[x_gate]] [[]] [1] = None"
    by (simp add: first_failure_def s l)
  have g: "gates (resolved ?e [[x_gate]] [[]] [1] 0) \<noteq> []"
    by (simp add: resolved_def s l)
  show ?thesis
    by (simp add: Compute_success [OF r f] output_cell_def g)
qed

subsection \<open>Every way out of the kernel\<close>

lemma schedule_irrelevant:
  "output_dims (e\<lparr>schedule := s\<rparr>) = output_dims e"
  "calls_before_resolution (e\<lparr>schedule := s\<rparr>) = calls_before_resolution e"
  "reaches_resolution (e\<lparr>schedule := s\<rparr>) P N S M = reaches_resolution e P N S M"
  "local_status (e\<lparr>schedule := s\<rparr>) P M N i = local_status e P M N i"
  by (simp_all add: output_dims_def calls_before_resolution_def reaches_resolution_def
        local_status_def)

lemma exits:
  obtains
    (inputs) "length (input_shapes e) \<noteq> 4"
  | (alloc) err where "length (input_shapes e) = 4"
      "allocate_output e (output_dims e) = Failed err"
  | (programs) err where "length (input_shapes e) = 4" "allocate_output e (output_dims e) = OK"
      "GetProgramsAndNumQubits e = Inl err"
  | (maps) P N S err where "length (input_shapes e) = 4" "allocate_output e (output_dims e) = OK"
      "GetProgramsAndNumQubits e = Inr (P, N, S)" "GetSymbolMaps e = Inl err"
  | (mismatch) P N S M where "length (input_shapes e) = 4"
      "allocate_output e (output_dims e) = OK"
      "GetProgramsAndNumQubits e = Inr (P, N, S)" "GetSymbolMaps e = Inr M"
      "length P \<noteq> length M"
  | (check) P N S M err where "length (input_shapes e) = 4"
      "allocate_output e (output_dims e) = OK"
      "GetProgramsAndNumQubits e = Inr (P, N, S)" "GetSymbolMaps e = Inr M"
      "length P = length M" "CheckQubitsIn1D P = Failed err"
  | (reaches) P N S M where "reaches_resolution e P N S M"
proof (cases "length (input_shapes e) = 4")
  case False
  then show ?thesis by (rule inputs)
next
  case four: True
  show ?thesis
  proof (cases "allocate_output e (output_dims e)")
    case (Failed err)
    with four show ?thesis by (rule alloc)
  next
    case OK
    show ?thesis
    proof (cases "GetProgramsAndNumQubits e")
      case (Inl err)
      with four OK show ?thesis by (rule programs)
    next
      case (Inr r)
      obtain P N S where r: "r = (P, N, S)"
        by (cases r) auto
      show ?thesis
      proof (cases "GetSymbolMaps e")
        case (Inl err)
        with four OK Inr r show ?thesis by (auto intro: maps)
      next
        case M: (Inr M)
        show ?thesis
        proof (cases "length P = length M")
          case False
          with four OK Inr r M show ?thesis by (auto intro: mismatch)
        next
          case len: True
          show ?thesis
          proof (cases "CheckQubitsIn1D P")
            case (Failed err)
            with four OK Inr r M len show ?thesis by (auto intro: check)
          next
            case chk: OK
            with four OK Inr r M len have "reaches_resolution e P N S M"
              by (simp add: reaches_resolution_def)
            then show ?thesis by (rule reaches)
          qed
        qed
      qed
    qed
  qed
qed

lemma Compute_early:
  assumes "\<And>P N S M. \<not> reaches_resolution e P N S M"
  shows "status (Compute e) \<noteq> OK
           \<and> set (trace (Compute e)) \<subseteq> set (calls_before_resolution e)
           \<and> (output0 (Compute e) = None
                \<or> output0 (Compute e) = Some (allocated (output_dims e)))"
proof (cases e rule: exits)
  case inputs
  from Compute_wrong_inputs [OF this] show ?thesis by (simp add: stop_fields)
next
  case (alloc err)
  from Compute_alloc_failed [OF this] show ?thesis
    by (simp add: calls_before_resolution_def stop_fields)
next
  case (programs err)
  from Compute_programs_failed [OF this] show ?thesis
    by (simp add: calls_before_resolution_def stop_fields)
next
  case (maps P N S err)
  from Compute_maps_failed [OF this] show ?thesis
    by (simp add: calls_before_resolution_def stop_fields)
next
  case (mismatch P N S M)
  from Compute_mismatch [OF this] show ?thesis
    by (simp add: calls_before_resolution_def stop_fields)
next
  case (check P N S M err)
  from Compute_check_failed [OF this] show ?thesis
    by (simp add: stop_fields)
next
  case (reaches P N S M)
  with assms show ?thesis by simp
qed

lemma Compute_early_schedule:
  assumes "\<And>P N S M. \<not> reaches_resolution e P N S M"
  shows "valid_output (Compute (e\<lparr>schedule := s\<rparr>)) = None"
proof -
  from assms have "\<And>P N S M. \<not> reaches_resolution (e\<lparr>schedule := s\<rparr>) P N S M"
    by (simp add: schedule_irrelevant)
  from Compute_early [OF this] show ?thesis
    by (cases "status (Compute (e\<lparr>schedule := s\<rparr>))") (simp_all add: valid_output_def)
qed

lemma Compute_outcomes:
  obtains
    (early) "status (Compute e) \<noteq> OK"
      "set (trace (Compute e)) \<subseteq> set (calls_before_resolution e)"
      "output0 (Compute e) = None \<or> output0 (Compute e) = Some (allocated (output_dims e))"
  | (failed) P N S M k where "reaches_resolution e P N S M" "first_failure e P M N = Some k"
  | (success) P N S M where "reaches_resolution e P N S M" "first_failure e P M N = None"
proof (cases "\<exists>P N S M. reaches_resolution e P N S M")
  case False
  then have "\<And>P N S M. \<not> reaches_resolution e P N S M" by blast
  from Compute_early [OF this] show ?thesis
    using early by blast
next
  case True
  then obtain P N S M where r: "reaches_resolution e P N S M" by blast
  show ?thesis
  proof (cases "first_failure e P M N")
    case None
    with r show ?thesis by (rule success)
  next
    case (Some k)
    with r show ?thesis by (rule failed)
  qed
qed


text \<open>
  Claim C9. The condition of the dispatch is true whatever the largest qubit count and the
  batch size are, so no run enters \<^verbatim>\<open>ComputeSmall\<close>, and every run that passes parsing
  and validation, that is every run that ends with status OK, goes through
  \<^verbatim>\<open>ComputeLarge\<close>.
\<close>

theorem always_ComputeLarge:
  "EnterComputeSmall \<notin> set (trace (Compute e))
   \<and> (status (Compute e) = OK \<longrightarrow> EnterComputeLarge \<in> set (trace (Compute e)))
   \<and> (\<forall>max_num_qubits n. dispatch_large max_num_qubits n)"
proof (cases e rule: Compute_outcomes)
  case early
  then show ?thesis
    by (auto simp: calls_before_resolution_def dispatch_large_always)
next
  case (failed P N S M k)
  from Compute_resolution_failed [OF this] show ?thesis
    by (auto simp: stop_fields calls_before_resolution_def dispatch_large_always)
next
  case (success P N S M)
  from Compute_success(3) [OF this] ComputeLarge_log show ?thesis
    by (auto simp: calls_before_resolution_def dispatch_large_always)
qed

text \<open>
  A batch of two programs on one qubit each: the last two disjuncts of the condition are
  false, and the run still goes through \<^verbatim>\<open>ComputeLarge\<close>.
\<close>

theorem always_ComputeLarge_witness:
  "status (Compute (scenario_two [1, 0])) = OK
   \<and> max_qubits [1, 1] < 26 \<and> length [[], [x_gate]] \<noteq> 1
   \<and> dispatch_large (max_qubits [1, 1]) (length [[], [x_gate]])
   \<and> EnterComputeLarge \<in> set (trace (Compute (scenario_two [1, 0])))
   \<and> EnterComputeSmall \<notin> set (trace (Compute (scenario_two [1, 0])))"
proof -
  let ?e = "scenario_two [1, 0]"
  let ?P = "[[], [x_gate]]"
  let ?M = "[[], []] :: SymbolMap list"
  have r: "reaches_resolution ?e ?P [1, 1] [[z_on_0], [z_on_0]] ?M"
    unfolding scenario_two_def
    by (rule batch_env_reaches) (simp_all add: CheckQubitsIn1D_def op_in_1D_def x_gate_def)
  have l0: "\<not> isl (local_status ?e ?P ?M [1, 1] 0)"
    by (simp add: scenario_two_def batch_env_local_status example_resolver_plain)
  have l1: "\<not> isl (local_status ?e ?P ?M [1, 1] 1)"
    by (simp add: scenario_two_def batch_env_local_status example_resolver_plain x_gate_def)
  have s: "schedule ?e = [1, 0]"
    by (simp add: scenario_two_def scenario_fields)
  have f: "first_failure ?e ?P ?M [1, 1] = None"
    by (simp add: first_failure_def s l0 l1 del: One_nat_def)
  have ok: "status (Compute ?e) = OK"
    by (rule Compute_success(1) [OF r f])
  have m: "max_qubits [1, 1] < 26"
    by (simp add: max_qubits_def)
  from always_ComputeLarge [of ?e] ok m show ?thesis
    by simp
qed

text \<open>
  The size of the worker pool only changes the order in which \<^verbatim>\<open>ParallelFor\<close> runs
  the batch indices. What the kernel itself does to the output does not depend on that
  order: two runs whose workers go through the same indices in different orders both
  fail, or both succeed with the same shape, the same value in every cell that the kernel
  writes, and the same cells not written. What the cells that are not written hold is not
  the kernel's doing, and this fact says nothing about it.
\<close>

lemma schedule_independent:
  assumes "set s1 = set s2"
  shows "valid_output (Compute (e\<lparr>schedule := s1\<rparr>)) = valid_output (Compute (e\<lparr>schedule := s2\<rparr>))"
proof (cases "\<exists>P N S M. reaches_resolution e P N S M")
  case False
  then have "\<And>P N S M. \<not> reaches_resolution e P N S M" by blast
  then show ?thesis by (simp add: Compute_early_schedule)
next
  case True
  then obtain P N S M where r: "reaches_resolution e P N S M" by blast
  let ?e1 = "e\<lparr>schedule := s1\<rparr>" and ?e2 = "e\<lparr>schedule := s2\<rparr>"
  have r1: "reaches_resolution ?e1 P N S M" and r2: "reaches_resolution ?e2 P N S M"
    using r by (simp_all add: schedule_irrelevant)
  have same: "first_failure ?e1 P M N = None \<longleftrightarrow> first_failure ?e2 P M N = None"
    using assms by (simp add: first_failure_None schedule_irrelevant)
  show ?thesis
  proof (cases "first_failure ?e1 P M N")
    case None
    with same have None2: "first_failure ?e2 P M N = None" by simp
    have "resolved ?e1 P M N = resolved ?e2 P M N"
      using assms by (simp add: resolved_def schedule_irrelevant fun_eq_iff)
    then show ?thesis
      by (simp add: valid_output_def Compute_success [OF r1 None] Compute_success [OF r2 None2]
            schedule_irrelevant)
  next
    case (Some k)
    with same obtain k' where Some2: "first_failure ?e2 P M N = Some k'" by auto
    show ?thesis
      by (simp add: Compute_resolution_failed [OF r1 Some] Compute_resolution_failed [OF r2 Some2]
            stop_fields)
  qed
qed

text \<open>The batch of two programs, run in the order 0, 1 and in the order 1, 0.\<close>

lemma schedule_independent_witness:
  "set [0, 1 :: nat] = set [1, 0]
   \<and> (scenario_two [0, 1])\<lparr>schedule := [1, 0]\<rparr> = scenario_two [1, 0]
   \<and> valid_output (Compute (scenario_two [0, 1])) = valid_output (Compute (scenario_two [1, 0]))
   \<and> status (Compute (scenario_two [1, 0])) = OK"
proof -
  let ?e = "scenario_two [1, 0]"
  let ?P = "[[], [x_gate]]"
  let ?M = "[[], []] :: SymbolMap list"
  have r: "reaches_resolution ?e ?P [1, 1] [[z_on_0], [z_on_0]] ?M"
    unfolding scenario_two_def
    by (rule batch_env_reaches) (simp_all add: CheckQubitsIn1D_def op_in_1D_def x_gate_def)
  have l0: "\<not> isl (local_status ?e ?P ?M [1, 1] 0)"
    by (simp add: scenario_two_def batch_env_local_status example_resolver_plain)
  have l1: "\<not> isl (local_status ?e ?P ?M [1, 1] 1)"
    by (simp add: scenario_two_def batch_env_local_status example_resolver_plain x_gate_def)
  have s: "schedule ?e = [1, 0]"
    by (simp add: scenario_two_def scenario_fields)
  have f: "first_failure ?e ?P ?M [1, 1] = None"
    by (simp add: first_failure_def s l0 l1 del: One_nat_def)
  have ok: "status (Compute ?e) = OK"
    by (rule Compute_success(1) [OF r f])
  have h: "set [0, 1 :: nat] = set [1, 0]"
    by auto
  have e1: "(scenario_two [0, 1])\<lparr>schedule := [0, 1]\<rparr> = scenario_two [0, 1]"
    and e2: "(scenario_two [0, 1])\<lparr>schedule := [1, 0]\<rparr> = scenario_two [1, 0]"
    by (simp_all add: scenario_two_def batch_env_def)
  from schedule_independent [OF h, of "scenario_two [0, 1]"] have
    "valid_output (Compute (scenario_two [0, 1])) = valid_output (Compute (scenario_two [1, 0]))"
    by (simp only: e1 e2)
  with h e2 ok show ?thesis
    by (simp only: simp_thms)
qed


lemma allocated_shape:
  assumes "output0 (Compute e) = Some t"
  shows "tshape t = output_dims e"
proof (cases e rule: Compute_outcomes)
  case early
  with assms show ?thesis
    by (auto simp: allocated_def)
next
  case (failed P N S M k)
  from Compute_resolution_failed [OF this] assms show ?thesis
    by (auto simp: stop_fields allocated_def)
next
  case (success P N S M)
  from Compute_success(2) [OF this] assms show ?thesis
    by auto
qed

lemma shape_fn_output:
  assumes "shape_fn shapes = Inr out"
  shows "\<exists>programs_shape pauli_sums_shape.
           WithRank (shapes ! 0) 1 = Inr programs_shape
           \<and> WithRank (shapes ! 3) 2 = Inr pauli_sums_shape
           \<and> out = [programs_shape ! 0, pauli_sums_shape ! 1]"
  using assms by (auto simp: shape_fn_def split: sum.splits)

text \<open>
  Claim C7. For a fixed input, two runs of the op with different worker-pool sizes should
  give output matrices that are identical bit for bit. The batch of an empty program and
  an X gate, run once in the order 0, 1 and once in the order 1, 0: both runs succeed and
  write \<open>-2.0\<close> into row 0, and neither writes row 1, whose circuit has a gate. Row 1
  then holds what each run's allocator left in its buffer, \<open>7777\<close> in one run and
  \<open>-5555\<close> in the other, and the two output matrices differ.
\<close>

theorem unwritten_cells_differ_between_runs:
  "status (Compute (scenario_two [0, 1])) = OK
   \<and> status (Compute (scenario_two [1, 0])) = OK
   \<and> output_cell (Compute (scenario_two [0, 1])) 1 0 = None
   \<and> output_cell (Compute (scenario_two [1, 0])) 1 0 = None
   \<and> cell_in_memory (\<lambda>_. 7777) (Compute (scenario_two [0, 1])) 1 0 = 7777
   \<and> cell_in_memory (\<lambda>_. - 5555) (Compute (scenario_two [1, 0])) 1 0 = - 5555
   \<and> cell_in_memory (\<lambda>_. 7777) (Compute (scenario_two [0, 1])) 1 0
       \<noteq> cell_in_memory (\<lambda>_. - 5555) (Compute (scenario_two [1, 0])) 1 0
   \<and> cell_in_memory (\<lambda>_. 7777) (Compute (scenario_two [0, 1])) 0 0 = - 2
   \<and> cell_in_memory (\<lambda>_. - 5555) (Compute (scenario_two [1, 0])) 0 0 = - 2"
proof -
  let ?P = "[[], [x_gate]]"
  let ?M = "[[], []] :: SymbolMap list"
  let ?S = "[[z_on_0], [z_on_0]]"
  have run: "status (Compute (scenario_two sched)) = OK
      \<and> output_cell (Compute (scenario_two sched)) 1 0 = None
      \<and> output_cell (Compute (scenario_two sched)) 0 0 = Some (- 2)"
    if sched: "set sched = {0, 1}" for sched
  proof -
    let ?e = "scenario_two sched"
    have r: "reaches_resolution ?e ?P [1, 1] ?S ?M"
      unfolding scenario_two_def
      by (rule batch_env_reaches) (simp_all add: CheckQubitsIn1D_def op_in_1D_def x_gate_def)
    have l0: "local_status ?e ?P ?M [1, 1] 0 = Inr \<lparr>circuit_num_qubits = 1, gates = []\<rparr>"
      by (simp add: scenario_two_def batch_env_local_status example_resolver_plain)
    have l1: "local_status ?e ?P ?M [1, 1] (Suc 0) =
                Inr \<lparr>circuit_num_qubits = 1,
                     gates = [\<lparr>qubits = [0], matrix = [0, 0, 1, 0, 1, 0, 0, 0]\<rparr>]\<rparr>"
      by (simp add: scenario_two_def batch_env_local_status example_resolver_plain x_gate_def
            gate_matrix_def)
    have s: "set (schedule ?e) = {0, Suc 0}"
      using sched by (simp add: scenario_two_def scenario_fields)
    have f: "first_failure ?e ?P ?M [1, 1] = None"
      using l0 l1 by (auto simp: first_failure_None s)
    have g0: "gates (resolved ?e ?P ?M [1, 1] 0) = []"
      and g1: "gates (resolved ?e ?P ?M [1, 1] (Suc 0)) \<noteq> []"
      by (simp_all add: resolved_def s l0 l1)
    show ?thesis
      by (simp add: Compute_success [OF r f] output_cell_def g0 g1)
  qed
  have "set [0, 1 :: nat] = {0, 1}" and "set [1, 0 :: nat] = {0, 1}"
    by auto
  from run [OF this(1)] run [OF this(2)] show ?thesis
    by (simp add: cell_in_memory_def)
qed

text \<open>
  Claim C8. For every input on which the kernel succeeds, the output matrix has as many
  rows as the programs input has entries and as many columns as the observables input has
  per batch item: the row count is dimension 0 of input 0 and the column count is
  dimension 1 of input 3, and the shape function of the op announces the same two
  dimensions. The dimensions are 64-bit values that the kernel stores into an
  \<^verbatim>\<open>int\<close>; a valid input has dimensions that fit.
\<close>

theorem output_matrix_shape:
  assumes "valid_output (Compute e) = Some t"
    and "input_shapes e ! 0 = [n]" and "input_shapes e ! 3 = [n', m]"
    and "0 \<le> n" and "n < 2 ^ 31" and "0 \<le> m" and "m < 2 ^ 31"
    and "shape_fn [Some [Some n], names_shape, values_shape, Some [Some n', Some m]] = Inr out"
  shows "tshape t = [n, m] \<and> out = [Some n, Some m]"
proof -
  from assms(1) have "output0 (Compute e) = Some t"
    by (cases "status (Compute e)") (simp_all add: valid_output_def)
  then have "tshape t = output_dims e"
    by (rule allocated_shape)
  with assms(2-7) have "tshape t = [n, m]"
    by (simp add: output_dims_def dim_size_def to_int_id)
  moreover from shape_fn_output [OF assms(8)] have "out = [Some n, Some m]"
    by (auto simp: WithRank_def)
  ultimately show ?thesis
    by simp
qed

text \<open>One program and two observables: a matrix of one row and two columns.\<close>

theorem output_matrix_shape_witness:
  "(\<exists>t. valid_output (Compute scenario_empty) = Some t \<and> tshape t = [1, 2])
   \<and> input_shapes scenario_empty ! 0 = [1] \<and> input_shapes scenario_empty ! 3 = [1, 2]
   \<and> shape_fn [Some [Some 1], Some [Some 0], Some [Some 1, Some 0], Some [Some 1, Some 2]]
       = Inr [Some 1, Some 2]"
proof -
  let ?e = "scenario_empty"
  have r: "reaches_resolution ?e [[]] [1] [[z_on_0, x_on_0]] [[]]"
    unfolding scenario_empty_def
    by (rule batch_env_reaches) (simp_all add: CheckQubitsIn1D_def)
  have l: "local_status ?e [[]] [[]] [1] 0 = Inr \<lparr>circuit_num_qubits = 1, gates = []\<rparr>"
    by (simp add: scenario_empty_def batch_env_local_status example_resolver_plain)
  have s: "schedule ?e = [0]"
    by (simp add: scenario_empty_def scenario_fields)
  have f: "first_failure ?e [[]] [[]] [1] = None"
    by (simp add: first_failure_def s l)
  have i0: "input_shapes ?e ! 0 = [1]" and i3: "input_shapes ?e ! 3 = [1, 2]"
    by (simp_all add: scenario_empty_def scenario_fields)
  obtain t where v: "valid_output (Compute ?e) = Some t"
    by (simp add: valid_output_def Compute_success(1,2) [OF r f])
  have sf: "shape_fn [Some [Some 1], Some [Some 0], Some [Some 1, Some 0], Some [Some 1, Some 2]]
              = Inr [Some 1, Some 2]"
    by (simp add: shape_fn_def WithRank_def)
  from output_matrix_shape [OF v i0 i3 _ _ _ _ sf] have "tshape t = [1, 2]"
    by simp
  with v i0 i3 sf show ?thesis
    by blast
qed

lemma large_loop_scratch_size:
  "mps_num_qubits (scratch s) = largest_nq s \<Longrightarrow>
   mps_num_qubits (scratch (large_loop bd N C P k s)) = largest_nq (large_loop bd N C P k s)"
proof (induction k)
  case 0
  then show ?case by (simp add: large_loop_0)
next
  case (Suc k)
  then show ?case
    by (simp add: large_loop_Suc large_body_fields Create_def max_def)
qed

text \<open>
  Claim C6. Turn \<open>k\<close> of the loop of \<^verbatim>\<open>ComputeLarge\<close> takes the state \<open>s\<close> to
  \<open>s'\<close>. The allocated size never decreases, in this turn and in all later ones; both
  buffers are created anew, with the qubit count of the item, exactly when the item needs
  more qubits than the allocation has, and the size of the buffers is always the largest
  qubit count met so far; the state is set to zero after that and before the first gate
  of the item, so that after the turn it holds the gates of this item and nothing else.
\<close>

theorem allocation_grows_only:
  assumes "k < length qsim_circuits"
    and "length num_qubits = length qsim_circuits"
    and "length pauli_sums = length qsim_circuits"
    and "s = state_after bd num_qubits qsim_circuits pauli_sums k"
    and "s' = state_after bd num_qubits qsim_circuits pauli_sums (Suc k)"
  shows "largest_nq s' = max (largest_nq s) (num_qubits ! k)
         \<and> largest_nq s \<le> largest_nq s'
         \<and> (\<forall>k' \<ge> k. largest_nq s \<le>
               largest_nq (state_after bd num_qubits qsim_circuits pauli_sums k'))
         \<and> mps_num_qubits (sv s') = largest_nq s'
         \<and> mps_num_qubits (scratch s') = largest_nq s'
         \<and> log s' = log s
              @ (if num_qubits ! k > largest_nq s
                 then [CallCreate (num_qubits ! k) bd, CallCreate (num_qubits ! k) bd] else [])
              @ [CallSetStateZero]
              @ map CallApplyGate (gates (qsim_circuits ! k))
              @ (if gates (qsim_circuits ! k) = []
                 then map (\<lambda>j. WriteOutput k j (- 2)) [0..<length (pauli_sums ! k)] else [])
         \<and> history (sv s') = Some (gates (qsim_circuits ! k))"
proof -
  have step: "s' = large_body bd num_qubits qsim_circuits pauli_sums k s"
    by (simp add: assms(4,5) state_after_def large_loop_Suc)
  have "\<forall>k' \<ge> k. largest_nq s \<le>
          largest_nq (state_after bd num_qubits qsim_circuits pauli_sums k')"
    by (simp add: assms(4) state_after_def large_loop_mono)
  moreover have "mps_num_qubits (sv s') = largest_nq s'"
    unfolding assms(5) state_after_def
    by (rule large_loop_size) (simp add: sim_init_def Create_def)
  moreover have "mps_num_qubits (scratch s') = largest_nq s'"
    unfolding assms(5) state_after_def
    by (rule large_loop_scratch_size) (simp add: sim_init_def Create_def)
  ultimately show ?thesis
    by (simp add: step large_body_fields)
qed


text \<open>
  Three qubits, then two: the second turn keeps the buffers of three qubits, creates
  nothing, and resets the state.
\<close>

theorem allocation_grows_only_witness:
  "largest_nq (state_after 2 [3, 2] two_circuits [[z_on_0], [z_on_0]] (Suc 0)) = 3
   \<and> largest_nq (state_after 2 [3, 2] two_circuits [[z_on_0], [z_on_0]] (Suc (Suc 0))) = 3
   \<and> mps_num_qubits (sv (state_after 2 [3, 2] two_circuits [[z_on_0], [z_on_0]] (Suc (Suc 0)))) = 3
   \<and> mps_num_qubits (scratch (state_after 2 [3, 2] two_circuits [[z_on_0], [z_on_0]] (Suc (Suc 0)))) = 3
   \<and> log (state_after 2 [3, 2] two_circuits [[z_on_0], [z_on_0]] (Suc (Suc 0))) =
       log (state_after 2 [3, 2] two_circuits [[z_on_0], [z_on_0]] (Suc 0))
         @ [CallSetStateZero, WriteOutput (Suc 0) 0 (- 2)]
   \<and> history (sv (state_after 2 [3, 2] two_circuits [[z_on_0], [z_on_0]] (Suc (Suc 0)))) = Some []"
proof -
  let ?s = "state_after 2 [3, 2] two_circuits [[z_on_0], [z_on_0]] (Suc 0)"
  let ?s' = "state_after 2 [3, 2] two_circuits [[z_on_0], [z_on_0]] (Suc (Suc 0))"
  have before: "largest_nq ?s = 3"
    by (simp add: state_after_def large_loop_Suc large_loop_0 large_body_fields sim_init_def)
  have h: "Suc 0 < length two_circuits" "length [3, 2 :: int] = length two_circuits"
    "length [[z_on_0], [z_on_0]] = length two_circuits"
    by (simp_all add: two_circuits_def)
  have g: "gates (two_circuits ! Suc 0) = []"
    by (simp add: two_circuits_def)
  from allocation_grows_only [OF h refl refl, of 2] before g show ?thesis
    by (simp add: z_on_0_def)
qed

end
